theory Spec2Isabelle
  imports Main
begin

section \<open>Data elements\<close>

text \<open>
  A data element is the Python dict a backend returns for one channel. The keys the
  acquisition task reads are modelled as the fields of a record; a key that may be
  absent is an option. The pixel array under the key data is a two-dimensional numpy
  array: its dtype, by name, and the list of its rows (rows of equal length). A pixel
  is an integer: the value itself for an integer dtype, a fixed encoding of the value
  for any other dtype. A sub-area is the pair ((top, left), (height, width)) of Python
  integers. An array without rows has width 0 here. Every delivery is taken to consist
  of dicts and arrays of its own: a backend that hands the same array object out again
  changes the buffered element behind the task's back, which a value cannot show.
\<close>

type_synonym cells_t = "int list list"

record ndarray =
  dtype :: string
  cells :: cells_t

text \<open>
  Storing a value into an array converts it to the dtype of that array. The
  conversion is numpy's and not part of this program, so it is a parameter of the
  model: cast src dst v is what an array of dtype dst holds after a value v of an
  array of dtype src has been assigned to one of its pixels.
\<close>

type_synonym cast_t = "string \<Rightarrow> string \<Rightarrow> int \<Rightarrow> int"

type_synonym sub_area_t = "(int \<times> int) \<times> (int \<times> int)"

record data_element =
  data :: ndarray
  sub_area :: "sub_area_t option"
  state :: "string option"
  channel_id :: "string option"
  channel_name :: "string option"
  properties_frame_index :: "int option"

datatype exn = AssertionError | ValueError | BackendError string

text \<open>The attribute shape of a two-dimensional array.\<close>

definition shape :: "ndarray \<Rightarrow> int \<times> int" where
  "shape a =
     (int (length (cells a)), (case cells a of [] \<Rightarrow> 0 | r # _ \<Rightarrow> int (length r)))"

text \<open>
  Python's slice(start, stop) applied to an axis of length n: a negative bound counts
  from the end, every bound is clipped to the axis, and an inverted range is empty.
  The result is the first index and the number of indices selected.
\<close>

definition slice_bound :: "int \<Rightarrow> nat \<Rightarrow> nat" where
  "slice_bound i n = (if i < 0 then nat (max 0 (i + int n)) else min (nat i) n)"

definition slice_indices :: "int \<Rightarrow> int \<Rightarrow> nat \<Rightarrow> nat \<times> nat" where
  "slice_indices start stop n =
     (let lo = slice_bound start n; hi = slice_bound stop n
      in (lo, if lo \<le> hi then hi - lo else 0))"

text \<open>Reading the block a[y_slice, x_slice] of the rows a.\<close>

definition get_block :: "cells_t \<Rightarrow> nat \<times> nat \<Rightarrow> nat \<times> nat \<Rightarrow> cells_t" where
  "get_block a ys xs =
     map (\<lambda>r. take (snd xs) (drop (fst xs) r)) (take (snd ys) (drop (fst ys) a))"

text \<open>
  Broadcasting along one axis: a source of the wanted length is taken as it is, a
  source of length one is repeated.
\<close>

definition broadcast :: "nat \<Rightarrow> 'a list \<Rightarrow> 'a list" where
  "broadcast n xs = (if length xs = n then xs else replicate n (hd xs))"

definition set_row :: "nat \<times> nat \<Rightarrow> int list \<Rightarrow> int list \<Rightarrow> int list" where
  "set_row xs dst src =
     take (fst xs) dst @ broadcast (snd xs) src @ drop (fst xs + snd xs) dst"

definition set_block :: "cells_t \<Rightarrow> nat \<times> nat \<Rightarrow> nat \<times> nat \<Rightarrow> cells_t \<Rightarrow> cells_t" where
  "set_block dst ys xs blk =
     take (fst ys) dst
     @ map (\<lambda>(d, s). set_row xs d s)
         (zip (take (snd ys) (drop (fst ys) dst)) (broadcast (snd ys) blk))
     @ drop (fst ys + snd ys) dst"

text \<open>
  The statement dst[y0:y1, x0:x1] = src[y0:y1, x0:x1] of numpy: both slices are
  clipped to their own array, and the source block must have the shape of the
  destination block or length one along an axis where it differs; otherwise numpy
  raises ValueError. Every value stored is converted from the dtype of the source to
  the dtype of the destination.
\<close>

definition assign_slice ::
  "cast_t \<Rightarrow> ndarray \<Rightarrow> int \<times> int \<Rightarrow> int \<times> int \<Rightarrow> ndarray \<Rightarrow> exn + ndarray" where
  "assign_slice cast dst y_slice x_slice src =
     (let dys = slice_indices (fst y_slice) (snd y_slice) (nat (fst (shape dst)));
          dxs = slice_indices (fst x_slice) (snd x_slice) (nat (snd (shape dst)));
          sys = slice_indices (fst y_slice) (snd y_slice) (nat (fst (shape src)));
          sxs = slice_indices (fst x_slice) (snd x_slice) (nat (snd (shape src)))
      in if (snd sys = snd dys \<or> snd sys = 1) \<and> (snd sxs = snd dxs \<or> snd sxs = 1)
         then Inr (dst\<lparr>cells :=
                     set_block (cells dst) dys dxs
                       (map (map (cast (dtype src) (dtype dst)))
                          (get_block (cells src) sys sxs))\<rparr>)
         else Inl ValueError)"

section \<open>Merging a partial delivery into the buffered frame\<close>

text \<open>
  The body of the loop over zip(partial_data_elements, data_elements) in
  __execute_acquire_data_elements: the two assertions, then, for a new top below
  row 0 of the buffer, the copy of the rows above the new top from the buffered
  element and the new sub-area. An element without the key sub_area stands for the
  whole array: get("sub_area", ((0, 0), shape)).
\<close>

definition get_sub_area :: "data_element \<Rightarrow> sub_area_t" where
  "get_sub_area e = (case sub_area e of Some s \<Rightarrow> s | None \<Rightarrow> ((0, 0), shape (data e)))"

definition merge_element ::
  "cast_t \<Rightarrow> data_element \<Rightarrow> data_element \<Rightarrow> exn + data_element" where
  "merge_element cast partial_data_element data_element =
     (let existing_sub_area = get_sub_area data_element;
          new_sub_area = get_sub_area partial_data_element;
          existing_top = fst (fst existing_sub_area);
          existing_height = fst (snd existing_sub_area);
          existing_left = snd (fst existing_sub_area);
          existing_width = snd (snd existing_sub_area);
          existing_bottom = existing_top + existing_height;
          existing_right = existing_left + existing_width;
          new_top = fst (fst new_sub_area);
          new_bottom = new_top + fst (snd new_sub_area);
          new_width = snd (snd new_sub_area)
      in if \<not> new_top \<le> existing_bottom then Inl AssertionError
         else if new_top > 0 \<and> new_width \<noteq> existing_width then Inl AssertionError
         else if new_top > 0 then
           (case assign_slice cast (data partial_data_element) (existing_top, new_top)
                   (existing_left, existing_right) (data data_element) of
              Inl e \<Rightarrow> Inl e
            | Inr d \<Rightarrow>
                Inr (partial_data_element
                      \<lparr>data := d,
                       sub_area := Some ((existing_top, existing_left),
                                         (new_bottom - existing_top, existing_width))\<rparr>))
         else Inr partial_data_element)"

text \<open>
  The loop itself. The partial elements are updated in place in the order of the zip;
  elements beyond the shorter list are left as they are.
\<close>

fun merge_zip ::
  "cast_t \<Rightarrow> data_element list \<Rightarrow> data_element list \<Rightarrow> exn + data_element list" where
  "merge_zip cast (p # ps) (d # ds) =
     (case merge_element cast p d of
        Inl e \<Rightarrow> Inl e
      | Inr p' \<Rightarrow>
          (case merge_zip cast ps ds of Inl e \<Rightarrow> Inl e | Inr ps' \<Rightarrow> Inr (p' # ps')))"
| "merge_zip cast ps ds = Inr ps"

text \<open>
  The merge step: a buffer that is None or empty is seeded with the partial elements;
  otherwise the loop runs, and data_elements becomes the partial list as soon as the
  loop body has run once (with an empty partial list it stays the buffered list).
\<close>

definition merge_data_elements ::
  "cast_t \<Rightarrow> data_element list option \<Rightarrow> data_element list \<Rightarrow> exn + data_element list" where
  "merge_data_elements cast buffered partial_data_elements =
     (case buffered of
        None \<Rightarrow> Inr partial_data_elements
      | Some [] \<Rightarrow> Inr partial_data_elements
      | Some (d # ds) \<Rightarrow>
          (case partial_data_elements of
             [] \<Rightarrow> Inr (d # ds)
           | p # ps \<Rightarrow> merge_zip cast (p # ps) (d # ds)))"

text \<open>Whether all data elements are complete.\<close>

definition element_complete :: "data_element \<Rightarrow> bool" where
  "element_complete e =
     (sub_area e = None \<or> (case state e of None \<Rightarrow> ''complete'' | Some s \<Rightarrow> s) = ''complete'')"

definition all_complete :: "data_element list \<Rightarrow> bool" where
  "all_complete es = list_all element_complete es"

section \<open>The acquisition task\<close>

text \<open>
  The private attributes of AcquisitionTask. The buffered data elements are None or a
  list. The last acquisition time and the minimum period only feed the sleep that
  limits the frame rate, and the test hook is only set by tests; none of them is
  modelled. Listeners of the two events are taken not to raise.
\<close>

record task =
  started :: bool
  finished :: bool
  is_suspended :: bool
  aborted :: bool
  is_stopping :: bool
  is_continuous :: bool
  frame_index :: int
  view_id :: string
  data_elements :: "data_element list option"

text \<open>
  What a method of the task does to the outside: the calls it makes on the hardware
  source and the events it fires, in order.
\<close>

datatype event =
    StartAcquisition
  | AbortAcquisition
  | SuspendAcquisition
  | ResumeAcquisition
  | MarkAcquisition
  | StopAcquisition
  | AcquireDataElements
  | DataElementsChanged "data_element list" bool string bool bool
  | FinishedEvent

text \<open>
  A call on the hardware source returns a value or raises. A method of the task calls
  each method of the hardware source at most once, so the behaviour of the hardware
  source during one method call of the task is one outcome per method. A task without
  a hardware source behaves as one whose start returns True, whose suspend returns
  False, whose acquisition raises AssertionError and whose other methods return.
\<close>

datatype 'a outcome = Returns 'a | Raises exn

record hardware_source =
  start_acquisition :: "bool outcome"
  abort_acquisition :: "unit outcome"
  suspend_acquisition :: "bool outcome"
  resume_acquisition :: "unit outcome"
  mark_acquisition :: "unit outcome"
  stop_acquisition :: "unit outcome"
  acquire_data_elements :: "data_element list option outcome"

text \<open>
  A piece of a method: from the task's attributes to the attributes afterwards, the
  calls and events it produced, and the value it returned or the exception it raised.
\<close>

type_synonym 'a action = "task \<Rightarrow> (task \<times> event list) \<times> (exn + 'a)"

definition ret :: "'a \<Rightarrow> 'a action" where
  "ret x = (\<lambda>t. ((t, []), Inr x))"

definition modify :: "(task \<Rightarrow> task) \<Rightarrow> unit action" where
  "modify f = (\<lambda>t. ((f t, []), Inr ()))"

definition fire :: "event \<Rightarrow> unit action" where
  "fire ev = (\<lambda>t. ((t, [ev]), Inr ()))"

definition call :: "event \<Rightarrow> 'a outcome \<Rightarrow> 'a action" where
  "call ev out = (\<lambda>t. ((t, [ev]), (case out of Returns x \<Rightarrow> Inr x | Raises e \<Rightarrow> Inl e)))"

text \<open>One statement after another: an exception skips what follows.\<close>

definition seq :: "'a action \<Rightarrow> ('a \<Rightarrow> 'b action) \<Rightarrow> 'b action" where
  "seq m f =
     (\<lambda>t. case m t of
        ((t1, es1), Inl e) \<Rightarrow> ((t1, es1), Inl e)
      | ((t1, es1), Inr x) \<Rightarrow> (case f x t1 of ((t2, es2), r) \<Rightarrow> ((t2, es1 @ es2), r)))"

text \<open>try: m; except Exception: h; raise.\<close>

definition try_except_reraise :: "'a action \<Rightarrow> unit action \<Rightarrow> 'a action" where
  "try_except_reraise m h =
     (\<lambda>t. case m t of
        ((t1, es1), Inr x) \<Rightarrow> ((t1, es1), Inr x)
      | ((t1, es1), Inl e) \<Rightarrow> (case h t1 of ((t2, es2), _) \<Rightarrow> ((t2, es1 @ es2), Inl e)))"

text \<open>try: m; finally: h.\<close>

definition try_finally :: "'a action \<Rightarrow> unit action \<Rightarrow> 'a action" where
  "try_finally m h =
     (\<lambda>t. case m t of ((t1, es1), r) \<Rightarrow> (case h t1 of ((t2, es2), _) \<Rightarrow> ((t2, es1 @ es2), r)))"

subsection \<open>The overridable methods, with their default implementations\<close>

definition start_acquisition' :: "hardware_source \<Rightarrow> bool action" where
  "start_acquisition' hs =
     seq (modify (\<lambda>t. t\<lparr>data_elements := None\<rparr>))
       (\<lambda>_. call StartAcquisition (start_acquisition hs))"

definition abort_acquisition' :: "hardware_source \<Rightarrow> unit action" where
  "abort_acquisition' hs =
     seq (modify (\<lambda>t. t\<lparr>data_elements := None\<rparr>))
       (\<lambda>_. call AbortAcquisition (abort_acquisition hs))"

definition suspend_acquisition' :: "hardware_source \<Rightarrow> bool action" where
  "suspend_acquisition' hs =
     seq (modify (\<lambda>t. t\<lparr>data_elements := None\<rparr>))
       (\<lambda>_. call SuspendAcquisition (suspend_acquisition hs))"

definition resume_acquisition' :: "hardware_source \<Rightarrow> unit action" where
  "resume_acquisition' hs =
     seq (modify (\<lambda>t. t\<lparr>data_elements := None\<rparr>))
       (\<lambda>_. call ResumeAcquisition (resume_acquisition hs))"

definition mark_acquisition' :: "hardware_source \<Rightarrow> unit action" where
  "mark_acquisition' hs = call MarkAcquisition (mark_acquisition hs)"

definition stop_acquisition' :: "hardware_source \<Rightarrow> unit action" where
  "stop_acquisition' hs =
     seq (modify (\<lambda>t. t\<lparr>data_elements := None\<rparr>))
       (\<lambda>_. call StopAcquisition (stop_acquisition hs))"

definition acquire_data_elements' :: "hardware_source \<Rightarrow> data_element list option action" where
  "acquire_data_elements' hs = call AcquireDataElements (acquire_data_elements hs)"

subsection \<open>The methods of the task\<close>

definition new_task :: "string \<Rightarrow> bool \<Rightarrow> task" where
  "new_task vid continuous =
     \<lparr>started = False, finished = False, is_suspended = False, aborted = False,
      is_stopping = False, is_continuous = continuous, frame_index = 0, view_id = vid,
      data_elements = None\<rparr>"

definition mark_as_finished :: "unit action" where
  "mark_as_finished =
     seq (modify (\<lambda>t. t\<lparr>finished := True\<rparr>))
       (\<lambda>_. seq (\<lambda>t. fire (DataElementsChanged [] (is_continuous t) (view_id t) False
                              (is_stopping t)) t)
         (\<lambda>_. fire FinishedEvent))"

definition abort :: "unit action" where
  "abort = modify (\<lambda>t. t\<lparr>aborted := True\<rparr>)"

definition stop :: "hardware_source \<Rightarrow> unit action" where
  "stop hs = seq (modify (\<lambda>t. t\<lparr>is_stopping := True\<rparr>)) (\<lambda>_. mark_acquisition' hs)"

definition resume :: "hardware_source \<Rightarrow> unit action" where
  "resume hs = resume_acquisition' hs"

definition suspend :: "hardware_source \<Rightarrow> bool action" where
  "suspend hs =
     (\<lambda>t. if \<not> is_suspended t
          then seq (modify (\<lambda>t. t\<lparr>is_suspended := True\<rparr>)) (\<lambda>_. suspend_acquisition' hs) t
          else ret True t)"

definition is_finished :: "task \<Rightarrow> bool" where
  "is_finished t = finished t"

definition start :: "hardware_source \<Rightarrow> unit action" where
  "start hs = seq (start_acquisition' hs) (\<lambda>ok. if \<not> ok then abort else ret ())"

text \<open>The frame index is stored in the properties of an element that has none.\<close>

definition setdefault_frame_index :: "int \<Rightarrow> data_element \<Rightarrow> data_element" where
  "setdefault_frame_index i e =
     (case properties_frame_index e of
        None \<Rightarrow> e\<lparr>properties_frame_index := Some i\<rparr>
      | Some _ \<Rightarrow> e)"

definition raise_if :: "exn + 'a \<Rightarrow> 'a action" where
  "raise_if r = (\<lambda>t. ((t, []), r))"

definition execute_acquire_data_elements :: "cast_t \<Rightarrow> hardware_source \<Rightarrow> bool action" where
  "execute_acquire_data_elements cast hs =
     seq (acquire_data_elements' hs)
       (\<lambda>r. case r of
          None \<Rightarrow> raise_if (Inl AssertionError)
        | Some partial_data_elements0 \<Rightarrow>
            (\<lambda>t. seq (raise_if (merge_data_elements cast (data_elements t)
                         (map (setdefault_frame_index (frame_index t)) partial_data_elements0)))
               (\<lambda>des. let complete = all_complete des in
                  seq (\<lambda>t. fire (DataElementsChanged des (is_continuous t) (view_id t) complete
                                   (is_stopping t)) t)
                    (\<lambda>_. seq (if complete
                              then modify (\<lambda>t. t\<lparr>frame_index := frame_index t + 1\<rparr>)
                              else modify (\<lambda>t. t\<lparr>data_elements := Some des\<rparr>))
                      (\<lambda>_. ret complete))) t))"

definition execute :: "cast_t \<Rightarrow> hardware_source \<Rightarrow> unit action" where
  "execute cast hs =
     seq (\<lambda>t. if \<not> started t
              then seq (try_except_reraise (start hs) mark_as_finished)
                     (\<lambda>_. modify (\<lambda>t. t\<lparr>started := True\<rparr>)) t
              else ret () t)
       (\<lambda>_. seq (\<lambda>t. if is_suspended t
                     then try_finally (resume hs) (modify (\<lambda>t. t\<lparr>is_suspended := False\<rparr>)) t
                     else ret () t)
         (\<lambda>_ t. if \<not> finished t
                then try_except_reraise
                       (\<lambda>t. if aborted t
                            then seq (abort_acquisition' hs)
                                   (\<lambda>_. seq (mark_acquisition' hs)
                                     (\<lambda>_. seq (stop_acquisition' hs)
                                       (\<lambda>_. mark_as_finished))) t
                            else seq (execute_acquire_data_elements cast hs)
                                   (\<lambda>complete t.
                                      if complete \<and> (is_stopping t \<or> \<not> is_continuous t)
                                      then seq (stop_acquisition' hs) (\<lambda>_. mark_as_finished) t
                                      else ret () t) t)
                       mark_as_finished t
                else ret () t))"

section \<open>The channel publisher\<close>

text \<open>
  The record published for one channel. The calibrated data and metadata built by
  convert_data_element_to_data_and_metadata carry a time stamp and floating point
  calibrations; the field keeps the copy of the pixel array they wrap.
\<close>

record channel_data =
  cd_channel_id :: "string option"
  cd_index :: nat
  cd_name :: "string option"
  cd_data_and_calibration :: ndarray
  cd_state :: string
  cd_sub_area :: "sub_area_t option"

datatype published =
    ChannelsDataUpdated string bool "channel_data list"
  | DataElementsAvailable "data_element list"

definition make_channel_data :: "bool \<Rightarrow> nat \<times> data_element \<Rightarrow> channel_data" where
  "make_channel_data stopping ie =
     (let channel_index = fst ie; data_element = snd ie;
          channel_state = (case state data_element of None \<Rightarrow> ''complete'' | Some s \<Rightarrow> s);
          channel_state = (if channel_state \<noteq> ''complete'' \<and> stopping
                           then ''marked'' else channel_state)
      in \<lparr>cd_channel_id = channel_id data_element, cd_index = channel_index,
          cd_name = channel_name data_element,
          cd_data_and_calibration = data data_element,
          cd_state = channel_state, cd_sub_area = sub_area data_element\<rparr>)"

definition data_elements_changed ::
  "data_element list \<Rightarrow> bool \<Rightarrow> string \<Rightarrow> bool \<Rightarrow> bool \<Rightarrow> published list" where
  "data_elements_changed des continuous vid complete stopping =
     (let channels_data = map (make_channel_data stopping) (enumerate 0 des)
      in ChannelsDataUpdated vid (\<not> continuous) channels_data
         # (if complete then [DataElementsAvailable des] else []))"

section \<open>Sequences of calls on a task\<close>

text \<open>
  The hardware source drives a task through its methods. A history is a list of
  calls, each with the behaviour of the hardware source during it; an exception that
  leaves a call is caught by the caller, and the history goes on.
\<close>

datatype method_call =
    Execute hardware_source
  | Suspend hardware_source
  | Resume hardware_source
  | Stop hardware_source
  | Abort

fun do_call :: "cast_t \<Rightarrow> method_call \<Rightarrow> task \<Rightarrow> task \<times> event list" where
  "do_call cast (Execute hs) t = fst (execute cast hs t)"
| "do_call cast (Suspend hs) t = fst (suspend hs t)"
| "do_call cast (Resume hs) t = fst (resume hs t)"
| "do_call cast (Stop hs) t = fst (stop hs t)"
| "do_call cast Abort t = fst (abort t)"

fun run :: "cast_t \<Rightarrow> method_call list \<Rightarrow> task \<Rightarrow> task \<times> event list" where
  "run cast [] t = (t, [])"
| "run cast (c # cs) t =
     (case do_call cast c t of
        (t1, es1) \<Rightarrow> (case run cast cs t1 of (t2, es2) \<Rightarrow> (t2, es1 @ es2)))"

text \<open>
  The deliveries of a complete frame among the events, judged by what was delivered:
  a data-changed notification with elements is one when every element is complete
  (it has no sub-area, or its state, "complete" when absent, is "complete"). The
  empty list is notified in two situations, told apart by the flag alone: with the
  flag on by an acquisition that produced no element, which counts as a frame, and
  with the flag off by a task that finishes.
\<close>

fun delivered_complete :: "event \<Rightarrow> bool" where
  "delivered_complete (DataElementsChanged des c v complete s) =
     (if des = [] then complete else all_complete des)"
| "delivered_complete _ = False"

definition completed_frames :: "event list \<Rightarrow> nat" where
  "completed_frames es = length (filter delivered_complete es)"

text \<open>The complete flag of a notification with elements says what the elements say.\<close>

fun flag_agrees :: "event \<Rightarrow> bool" where
  "flag_agrees (DataElementsChanged des c v complete s) =
     (des = [] \<or> complete = all_complete des)"
| "flag_agrees _ = True"

text \<open>The notifications among the events: data-changed and finished.\<close>

fun is_notification :: "event \<Rightarrow> bool" where
  "is_notification (DataElementsChanged des c v complete s) = True"
| "is_notification FinishedEvent = True"
| "is_notification _ = False"

fun is_data_changed :: "event \<Rightarrow> bool" where
  "is_data_changed (DataElementsChanged des c v complete s) = True"
| "is_data_changed _ = False"

text \<open>An array of h rows, each w wide.\<close>

definition rectangular :: "nat \<Rightarrow> nat \<Rightarrow> ndarray \<Rightarrow> bool" where
  "rectangular h w a = (length (cells a) = h \<and> list_all (\<lambda>r. length r = w) (cells a))"

text \<open>
  The covered region of an element, and the condition under which the merge loop
  refuses a new partial element against the buffered one: its top lies beyond the
  bottom of the covered region, or it starts below row 0 with a width other than the
  width of the covered region.
\<close>

definition top_of :: "data_element \<Rightarrow> int" where
  "top_of e = fst (fst (get_sub_area e))"

definition height_of :: "data_element \<Rightarrow> int" where
  "height_of e = fst (snd (get_sub_area e))"

definition width_of :: "data_element \<Rightarrow> int" where
  "width_of e = snd (snd (get_sub_area e))"

definition merge_violation :: "data_element \<Rightarrow> data_element \<Rightarrow> bool" where
  "merge_violation new existing =
     (top_of existing + height_of existing < top_of new
      \<or> 0 < top_of new \<and> width_of new \<noteq> width_of existing)"

text \<open>The rows an element covers.\<close>

definition covered_rows :: "data_element \<Rightarrow> int set" where
  "covered_rows e = {top_of e ..< top_of e + height_of e}"

text \<open>
  A new band that continues the buffered one: the buffered region starts at row 0 and
  column 0, the new band starts below row 0, not beyond the bottom of the buffered
  region, and ends at or beyond it; both have the same width, which is the width of
  both arrays, and the arrays have the same number of rows.
\<close>

definition band_follows :: "data_element \<Rightarrow> data_element \<Rightarrow> bool" where
  "band_follows new existing =
     (fst (get_sub_area existing) = (0, 0)
      \<and> 0 < top_of new \<and> top_of new \<le> height_of existing
      \<and> height_of existing \<le> top_of new + height_of new
      \<and> width_of new = width_of existing \<and> 0 \<le> width_of existing
      \<and> rectangular (length (cells (data existing))) (nat (width_of existing)) (data existing)
      \<and> rectangular (length (cells (data existing))) (nat (width_of existing)) (data new))"

text \<open>
  What the merge of such a band is to give: the new element, with the rows above its
  top taken from the buffered array (converted to the dtype of the new array), its own
  rows from its top on, and the region from row 0 to its bottom at the buffered width.
\<close>

definition union_band :: "cast_t \<Rightarrow> data_element \<Rightarrow> data_element \<Rightarrow> data_element" where
  "union_band cast new existing =
     new\<lparr>data := (data new)
            \<lparr>cells := map (map (cast (dtype (data existing)) (dtype (data new))))
                         (take (nat (top_of new)) (cells (data existing)))
                       @ drop (nat (top_of new)) (cells (data new))\<rparr>,
         sub_area := Some ((0, 0), (top_of new + height_of new, width_of existing))\<rparr>"

section \<open>Concrete inputs\<close>

text \<open>
  The conversion the examples use, which is numpy's on integral values. Into an
  integer dtype: the value modulo two to the number of bits, read as signed for a
  signed dtype. Into float64 and float32, whose integral values stand for themselves:
  the nearest value with 53 or 24 significant bits, a tie going to the even one
  (the range of the exponent is not modelled). For any other destination the examples
  take the value as it is.
\<close>

definition wrap :: "bool \<Rightarrow> nat \<Rightarrow> int \<Rightarrow> int" where
  "wrap signed bits v =
     (if signed then (v + 2 ^ (bits - 1)) mod 2 ^ bits - 2 ^ (bits - 1) else v mod 2 ^ bits)"

function bit_length :: "int \<Rightarrow> nat" where
  "bit_length n = (if n \<le> 0 then 0 else Suc (bit_length (n div 2)))"
  by pat_completeness auto
termination
  by (relation "measure nat") auto

definition round_quotient :: "int \<Rightarrow> int \<Rightarrow> int \<Rightarrow> int" where
  "round_quotient q r h = (if h < r \<or> (r = h \<and> odd q) then q + 1 else q)"

definition round_at :: "nat \<Rightarrow> int \<Rightarrow> int" where
  "round_at e v =
     sgn v * (round_quotient (\<bar>v\<bar> div 2 ^ e) (\<bar>v\<bar> mod 2 ^ e) (2 ^ (e - 1)) * 2 ^ e)"

definition round_to_bits :: "nat \<Rightarrow> int \<Rightarrow> int" where
  "round_to_bits bits v =
     (if bit_length \<bar>v\<bar> \<le> bits then v else round_at (bit_length \<bar>v\<bar> - bits) v)"

definition example_cast :: cast_t where
  "example_cast src dst v =
     (if dst = ''int8'' then wrap True 8 v
      else if dst = ''int16'' then wrap True 16 v
      else if dst = ''int32'' then wrap True 32 v
      else if dst = ''int64'' then wrap True 64 v
      else if dst = ''uint8'' then wrap False 8 v
      else if dst = ''uint16'' then wrap False 16 v
      else if dst = ''uint32'' then wrap False 32 v
      else if dst = ''uint64'' then wrap False 64 v
      else if dst = ''float64'' then round_to_bits 53 v
      else if dst = ''float32'' then round_to_bits 24 v
      else v)"

text \<open>
  An element whose array, of dtype int64, has h rows of width w, every pixel v; a
  hardware source all of whose methods return normally, starting with success and
  delivering the given elements.
\<close>

definition example_element ::
  "nat \<Rightarrow> nat \<Rightarrow> int \<Rightarrow> sub_area_t option \<Rightarrow> string option \<Rightarrow> data_element" where
  "example_element h w v s st =
     \<lparr>data = \<lparr>dtype = ''int64'', cells = replicate h (replicate w v)\<rparr>, sub_area = s,
      state = st, channel_id = None, channel_name = None, properties_frame_index = None\<rparr>"

definition example_source :: "data_element list \<Rightarrow> hardware_source" where
  "example_source des =
     \<lparr>start_acquisition = Returns True, abort_acquisition = Returns (),
      suspend_acquisition = Returns True, resume_acquisition = Returns (),
      mark_acquisition = Returns (), stop_acquisition = Returns (),
      acquire_data_elements = Returns (Some des)\<rparr>"

text \<open>The upper and the lower half of a frame of four rows, three pixels wide.\<close>

definition upper_half :: data_element where
  "upper_half = example_element 4 3 1 (Some ((0, 0), (2, 3))) (Some ''partial'')"

definition lower_half :: data_element where
  "lower_half = example_element 4 3 2 (Some ((2, 0), (2, 3))) (Some ''complete'')"

text \<open>
  The frame the two halves merge to, a band of a later frame that starts at row 2, and
  the task after the delivery of the upper half and after the whole first frame.
\<close>

definition merged_frame :: data_element where
  "merged_frame =
     \<lparr>data = \<lparr>dtype = ''int64'', cells = [[1, 1, 1], [1, 1, 1], [2, 2, 2], [2, 2, 2]]\<rparr>,
      sub_area = Some ((0, 0), (4, 3)), state = Some ''complete'', channel_id = None,
      channel_name = None, properties_frame_index = Some 0\<rparr>"

definition late_band :: data_element where
  "late_band = example_element 4 3 5 (Some ((2, 0), (2, 3))) (Some ''partial'')"

definition after_upper_half :: "task \<Rightarrow> task" where
  "after_upper_half t = fst (fst (execute example_cast (example_source [upper_half]) t))"

text \<open>Tasks in the states the properties below are about, and failing hardware.\<close>

definition started_task :: task where
  "started_task = (new_task ''view'' True)\<lparr>started := True\<rparr>"

definition after_first_frame :: task where
  "after_first_frame =
     fst (fst (execute example_cast (example_source [lower_half]) (after_upper_half started_task)))"

definition stopping_task :: task where
  "stopping_task = started_task\<lparr>is_stopping := True\<rparr>"

definition aborted_task :: task where
  "aborted_task = started_task\<lparr>aborted := True\<rparr>"

definition aborted_mid_frame :: task where
  "aborted_mid_frame = fst (fst (abort (after_upper_half started_task)))"

definition suspended_task :: task where
  "suspended_task = started_task\<lparr>is_suspended := True\<rparr>"

definition finished_task :: task where
  "finished_task = started_task\<lparr>finished := True\<rparr>"

definition failing_start :: hardware_source where
  "failing_start = (example_source [])\<lparr>start_acquisition := Raises (BackendError ''start'')\<rparr>"

definition refusing_start :: hardware_source where
  "refusing_start = (example_source [])\<lparr>start_acquisition := Returns False\<rparr>"

definition failing_resume :: hardware_source where
  "failing_resume =
     (example_source [])\<lparr>resume_acquisition := Raises (BackendError ''resume'')\<rparr>"

text \<open>
  Two bands that are two pixels wide on arrays three pixels wide, and the bands of
  the frame of sixteen rows, twenty pixels wide.
\<close>

definition narrow_upper :: data_element where
  "narrow_upper = example_element 4 3 1 (Some ((0, 0), (2, 2))) (Some ''partial'')"

definition narrow_lower :: data_element where
  "narrow_lower = example_element 4 3 2 (Some ((2, 0), (2, 2))) (Some ''complete'')"

definition rows_0_10 :: data_element where
  "rows_0_10 = example_element 16 20 1 (Some ((0, 0), (10, 20))) (Some ''partial'')"

definition rows_10_16 :: data_element where
  "rows_10_16 = example_element 16 20 2 (Some ((10, 0), (6, 20))) (Some ''complete'')"

definition rows_5_10_narrow :: data_element where
  "rows_5_10_narrow = example_element 16 20 2 (Some ((5, 0), (5, 12))) (Some ''partial'')"

definition rows_12_16 :: data_element where
  "rows_12_16 = example_element 16 20 2 (Some ((12, 0), (4, 20))) (Some ''complete'')"

text \<open>
  A history of a continuous task: the upper half of a frame delivered twice, then the
  lower half, then the upper half of the next frame, a stop, and the lower half.
\<close>

definition frames_history :: "method_call list" where
  "frames_history =
     [Execute (example_source [upper_half]), Execute (example_source [upper_half]),
      Execute (example_source [lower_half]), Execute (example_source [upper_half]),
      Stop (example_source []), Execute (example_source [lower_half])]"

text \<open>
  A buffered band of dtype int64 holding the value 300, and a band of dtype uint8 that
  continues it.
\<close>

definition wide_values :: data_element where
  "wide_values = example_element 2 2 300 (Some ((0, 0), (1, 2))) (Some ''partial'')"

definition byte_band :: data_element where
  "byte_band =
     \<lparr>data = \<lparr>dtype = ''uint8'', cells = [[7, 7], [7, 7]]\<rparr>, sub_area = Some ((1, 0), (1, 2)),
      state = Some ''complete'', channel_id = None, channel_name = None,
      properties_frame_index = None\<rparr>"

section \<open>Unfolding the methods\<close>

lemmas action_defs = ret_def modify_def fire_def call_def seq_def try_except_reraise_def
  try_finally_def raise_if_def

lemmas hook_defs = start_acquisition'_def abort_acquisition'_def suspend_acquisition'_def
  resume_acquisition'_def mark_acquisition'_def stop_acquisition'_def
  acquire_data_elements'_def

lemmas method_defs = mark_as_finished_def abort_def stop_def resume_def suspend_def start_def

lemmas exec_defs = execute_def execute_acquire_data_elements_def method_defs action_defs
  hook_defs Let_def

lemmas exec_splits = outcome.splits option.splits sum.splits if_splits

lemmas example_defs = example_source_def example_element_def upper_half_def lower_half_def
  new_task_def started_task_def stopping_task_def aborted_task_def suspended_task_def
  finished_task_def failing_start_def refusing_start_def failing_resume_def

section \<open>The frame index\<close>

lemma all_complete_Nil: "all_complete []"
  by (simp add: all_complete_def)

lemma execute_frame_index:
  "execute cast hs t = ((t', es), r) \<Longrightarrow>
   frame_index t' = frame_index t + int (completed_frames es)
   \<and> list_all flag_agrees es \<and> completed_frames es \<le> 1"
  by (auto simp: exec_defs completed_frames_def all_complete_Nil split: exec_splits)

lemma do_call_frame_index:
  "do_call cast c t = (t', es) \<Longrightarrow>
   frame_index t' = frame_index t + int (completed_frames es) \<and> list_all flag_agrees es"
proof (cases c)
  case (Execute hs)
  assume "do_call cast c t = (t', es)"
  with Execute obtain r where "execute cast hs t = ((t', es), r)"
    by (cases "execute cast hs t") auto
  then show ?thesis using execute_frame_index by blast
qed (auto simp: method_defs action_defs hook_defs completed_frames_def
      split: outcome.splits if_splits)

lemma completed_frames_append:
  "completed_frames (xs @ ys) = completed_frames xs + completed_frames ys"
  by (simp add: completed_frames_def)

lemma run_frame_index:
  "frame_index (fst (run cast cs t)) = frame_index t + int (completed_frames (snd (run cast cs t)))
   \<and> list_all flag_agrees (snd (run cast cs t))"
proof (induction cs arbitrary: t)
  case Nil
  show ?case by (simp add: completed_frames_def)
next
  case (Cons c cs)
  obtain t1 es1 where c: "do_call cast c t = (t1, es1)" by (cases "do_call cast c t")
  obtain t2 es2 where r: "run cast cs t1 = (t2, es2)" by (cases "run cast cs t1")
  from Cons.IH [of t1] r
  have "frame_index t2 = frame_index t1 + int (completed_frames es2) \<and> list_all flag_agrees es2"
    by simp
  with do_call_frame_index [OF c] show ?case
    by (simp add: c r completed_frames_append)
qed

text \<open>
  Claim C5. Over any history of calls on a task, continuous or not, the frame index
  at the end is the frame index at the beginning plus the number of deliveries of a
  complete frame, a delivery being judged by the states of the elements delivered: it
  advances by one with each delivery all of whose elements are complete and by
  nothing else, however many incomplete deliveries, suspensions, stops, aborts or
  failures lie in between. The complete flag of every notification with elements
  agrees with the states of its elements, and one call of execute delivers at most
  one complete frame.
\<close>

theorem frame_index_counts_completed_frames:
  "frame_index (fst (run cast cs t)) = frame_index t + int (completed_frames (snd (run cast cs t)))
   \<and> list_all flag_agrees (snd (run cast cs t))
   \<and> completed_frames (snd (fst (execute cast hs t))) \<le> 1"
proof -
  obtain t' es r where "execute cast hs t = ((t', es), r)"
    by (cases "execute cast hs t") auto
  then have "completed_frames (snd (fst (execute cast hs t))) \<le> 1"
    using execute_frame_index by fastforce
  with run_frame_index show ?thesis by blast
qed

text \<open>
  The states of the elements notified in the example history, in order: three
  incomplete deliveries and two complete ones, and the final empty notification.
\<close>

lemma frames_history_deliveries:
  "map (\<lambda>e. case e of DataElementsChanged des c v k s \<Rightarrow> map state des | _ \<Rightarrow> [])
     (filter is_data_changed (snd (run example_cast frames_history (new_task ''view'' True))))
   = [[Some ''partial''], [Some ''partial''], [Some ''complete''], [Some ''partial''],
      [Some ''complete''], []]"
  by code_simp

lemma two_frames_history:
  "completed_frames (snd (run example_cast frames_history (new_task ''view'' True))) = 2"
  by code_simp

theorem frame_index_counts_completed_frames_witness:
  "frame_index (fst (run example_cast frames_history (new_task ''view'' True))) = 2
   \<and> completed_frames (snd (run example_cast frames_history (new_task ''view'' True))) = 2"
  using frame_index_counts_completed_frames
          [of example_cast frames_history "new_task ''view'' True"]
  by (simp only: two_frames_history) (simp add: new_task_def)

section \<open>Properties of the channel publisher\<close>

text \<open>
  Claim C10. On a data-changed notification the publisher emits one record per data
  element, in order. The state of a record is the state of its element, "complete"
  when the element has none, replaced by "marked" when the task is stopping and that
  state is not "complete"; when the task is not stopping the state passes through.
\<close>

theorem published_channel_state:
  "\<exists>cds rest. data_elements_changed des continuous vid complete stopping
       = ChannelsDataUpdated vid (\<not> continuous) cds # rest
     \<and> length cds = length des
     \<and> (\<forall>i<length des.
          cd_index (cds ! i) = i
          \<and> cd_state (cds ! i) =
              (case state (des ! i) of
                 None \<Rightarrow> ''complete''
               | Some s \<Rightarrow> if stopping \<and> s \<noteq> ''complete'' then ''marked'' else s))"
  by (auto simp: data_elements_changed_def make_channel_data_def Let_def nth_enumerate_eq
      split: option.splits)

theorem published_channel_state_witness:
  "\<exists>cds rest. data_elements_changed
        [upper_half, lower_half, example_element 4 3 0 None None] True ''view'' False True
       = ChannelsDataUpdated ''view'' False cds # rest
     \<and> length cds = 3
     \<and> cd_state (cds ! 0) = ''marked''
     \<and> cd_state (cds ! 1) = ''complete''
     \<and> cd_state (cds ! 2) = ''complete''"
proof -
  let ?des = "[upper_half, lower_half, example_element 4 3 0 None None]"
  obtain cds rest where
    eq: "data_elements_changed ?des True ''view'' False True
           = ChannelsDataUpdated ''view'' (\<not> True) cds # rest"
    and len: "length cds = length ?des"
    and st: "\<forall>i<length ?des.
          cd_index (cds ! i) = i
          \<and> cd_state (cds ! i) =
              (case state (?des ! i) of
                 None \<Rightarrow> ''complete''
               | Some s \<Rightarrow> if True \<and> s \<noteq> ''complete'' then ''marked'' else s)"
    using published_channel_state [of ?des True "''view''" False True] by blast
  have "cd_state (cds ! 0) = ''marked''"
    using st [rule_format, of 0] by (simp add: upper_half_def example_element_def)
  moreover have "cd_state (cds ! 1) = ''complete''"
    using st [rule_format, of 1] by (simp add: lower_half_def example_element_def)
  moreover have "cd_state (cds ! 2) = ''complete''"
    using st [rule_format, of 2] by (simp add: example_element_def)
  ultimately show ?thesis using eq len by auto
qed

section \<open>The state machine of the task\<close>

subsection \<open>Failure to start\<close>

text \<open>
  Claim C3, as the code has it. On the first call of execute the start hook is
  invoked. When it raises, the task is marked finished at once, fires the
  data-changed notification with an empty list and then the finished notification,
  and the exception leaves execute. When it returns False, nothing is raised: the
  task is marked aborted and, in the same call, goes through the abort, mark and stop
  hooks to finished with the same two notifications, and execute returns normally.
\<close>

theorem start_failure:
  assumes "\<not> started t"
  shows "(start_acquisition hs = Raises e \<longrightarrow>
           execute cast hs t =
             ((t\<lparr>data_elements := None, finished := True\<rparr>,
               [StartAcquisition,
                DataElementsChanged [] (is_continuous t) (view_id t) False (is_stopping t),
                FinishedEvent]),
              Inl e))
    \<and> (start_acquisition hs = Returns False \<and> \<not> finished t \<and> \<not> is_suspended t
         \<and> abort_acquisition hs = Returns () \<and> mark_acquisition hs = Returns ()
         \<and> stop_acquisition hs = Returns () \<longrightarrow>
           execute cast hs t =
             ((t\<lparr>data_elements := None, aborted := True, started := True, finished := True\<rparr>,
               [StartAcquisition, AbortAcquisition, MarkAcquisition, StopAcquisition,
                DataElementsChanged [] (is_continuous t) (view_id t) False (is_stopping t),
                FinishedEvent]),
              Inr ()))"
  using assms by (auto simp: exec_defs split: exec_splits)

theorem start_failure_witness:
  "execute example_cast failing_start (new_task ''view'' True) =
     (((new_task ''view'' True)\<lparr>data_elements := None, finished := True\<rparr>,
       [StartAcquisition, DataElementsChanged [] True ''view'' False False, FinishedEvent]),
      Inl (BackendError ''start''))
   \<and> execute example_cast refusing_start (new_task ''view'' False) =
     (((new_task ''view'' False)
         \<lparr>data_elements := None, aborted := True, started := True, finished := True\<rparr>,
       [StartAcquisition, AbortAcquisition, MarkAcquisition, StopAcquisition,
        DataElementsChanged [] False ''view'' False False, FinishedEvent]),
      Inr ())"
proof -
  have n: "\<not> started (new_task ''view'' c)" for c
    by (simp add: new_task_def)
  have r: "start_acquisition failing_start = Raises (BackendError ''start'')"
    and f: "start_acquisition refusing_start = Returns False
            \<and> \<not> finished (new_task ''view'' False) \<and> \<not> is_suspended (new_task ''view'' False)
            \<and> abort_acquisition refusing_start = Returns ()
            \<and> mark_acquisition refusing_start = Returns ()
            \<and> stop_acquisition refusing_start = Returns ()"
    by (simp_all add: example_defs)
  from start_failure [OF n [of True], of failing_start "BackendError ''start''" example_cast] r
    start_failure [OF n [of False], of refusing_start _ example_cast] f
  show ?thesis by (simp add: new_task_def)
qed

text \<open>
  The claim as the specification words it fails where the start hook reports failure
  by returning False: no error reaches the caller of execute.
\<close>

theorem start_failure_counterexample:
  "start_acquisition refusing_start = Returns False
   \<and> snd (execute example_cast refusing_start (new_task ''view'' True)) = Inr ()
   \<and> snd (fst (execute example_cast refusing_start (new_task ''view'' True))) =
       [StartAcquisition, AbortAcquisition, MarkAcquisition, StopAcquisition,
        DataElementsChanged [] True ''view'' False False, FinishedEvent]"
  by (simp add: example_defs exec_defs)

subsection \<open>Abort\<close>

text \<open>
  Claim C6, as the code has it. Take a started task that is not finished and on which
  abort has been called, and let the resume hook return normally if the task is
  suspended. Then the next call of execute leaves the task finished, makes no
  acquisition, and fires exactly one data-changed notification, the one with the
  empty list, followed at the very end by the finished notification. When the abort,
  mark and stop hooks return normally they are called in that order (after the resume
  hook of a suspended task) and execute returns normally.
\<close>

theorem abort_takes_effect:
  assumes "started t" "\<not> finished t" "aborted t"
    and "\<not> is_suspended t \<or> resume_acquisition hs = Returns ()"
    and "execute cast hs t = ((t', es), r)"
  shows "finished t'
    \<and> filter is_data_changed es
         = [DataElementsChanged [] (is_continuous t) (view_id t) False (is_stopping t)]
    \<and> (\<exists>pre. es = pre @ [DataElementsChanged [] (is_continuous t) (view_id t) False (is_stopping t),
                           FinishedEvent])
    \<and> AcquireDataElements \<notin> set es
    \<and> (abort_acquisition hs = Returns () \<and> mark_acquisition hs = Returns ()
         \<and> stop_acquisition hs = Returns () \<longrightarrow>
        es = (if is_suspended t then [ResumeAcquisition] else [])
             @ [AbortAcquisition, MarkAcquisition, StopAcquisition,
                DataElementsChanged [] (is_continuous t) (view_id t) False (is_stopping t),
                FinishedEvent]
        \<and> r = Inr ())"
  using assms by (auto simp: exec_defs split: exec_splits)

lemma aborted_mid_frame_state:
  "aborted_mid_frame =
     started_task\<lparr>aborted := True,
                  data_elements := Some [upper_half\<lparr>properties_frame_index := Some 0\<rparr>]\<rparr>"
  by code_simp

lemma execute_aborted_mid_frame:
  "execute example_cast (example_source [lower_half]) aborted_mid_frame =
     ((started_task\<lparr>aborted := True, finished := True\<rparr>,
       [AbortAcquisition, MarkAcquisition, StopAcquisition,
        DataElementsChanged [] True ''view'' False False, FinishedEvent]),
      Inr ())"
  by code_simp

theorem abort_takes_effect_witness:
  "data_elements aborted_mid_frame \<noteq> None
   \<and> finished (fst (fst (execute example_cast (example_source [lower_half]) aborted_mid_frame)))
   \<and> snd (fst (execute example_cast (example_source [lower_half]) aborted_mid_frame))
      = [AbortAcquisition, MarkAcquisition, StopAcquisition,
         DataElementsChanged [] True ''view'' False False, FinishedEvent]"
proof -
  have a: "started aborted_mid_frame" and b: "\<not> finished aborted_mid_frame"
    and c: "aborted aborted_mid_frame"
    and d: "\<not> is_suspended aborted_mid_frame
            \<or> resume_acquisition (example_source [lower_half]) = Returns ()"
    and e: "data_elements aborted_mid_frame \<noteq> None"
    by (simp_all add: aborted_mid_frame_state) (simp_all add: example_defs)
  have "finished (started_task\<lparr>aborted := True, finished := True\<rparr>)"
    using abort_takes_effect [OF a b c d execute_aborted_mid_frame] by blast
  with e show ?thesis
    by (simp add: execute_aborted_mid_frame)
qed

text \<open>
  The claim as the specification words it fails for a suspended task whose resume
  hook raises: the resume call of execute stands outside the handler that marks the
  task finished, so the call ends with the task not finished and nothing fired.
\<close>

theorem abort_takes_effect_counterexample:
  "execute example_cast failing_resume (aborted_task\<lparr>is_suspended := True\<rparr>) =
     ((aborted_task\<lparr>data_elements := None\<rparr>, [ResumeAcquisition]),
      Inl (BackendError ''resume''))
   \<and> started (aborted_task\<lparr>is_suspended := True\<rparr>)
   \<and> aborted (aborted_task\<lparr>is_suspended := True\<rparr>)
   \<and> \<not> finished (aborted_task\<lparr>data_elements := None\<rparr>)"
  by (simp add: example_defs exec_defs)

subsection \<open>Stop at the frame boundary\<close>

text \<open>
  Claim C7. In one call of execute: a delivery that is incomplete (a data-changed
  notification with elements and the complete flag off) leaves the task unfinished
  and the stop hook uncalled, whether or not stop has been called; a complete
  delivery of a task that is stopping or single-pass calls the stop hook and leaves
  the task finished; a continuous task that finishes without abort and without error
  was stopping and delivered a complete frame in this call; a continuous task that is
  not stopping stays unfinished after a complete delivery. The method stop itself
  only sets the stopping flag.
\<close>

theorem stop_at_frame_boundary:
  assumes "execute cast hs t = ((t', es), r)"
  shows "(DataElementsChanged des c v False s \<in> set es \<and> des \<noteq> [] \<longrightarrow>
            \<not> finished t' \<and> StopAcquisition \<notin> set es)
    \<and> ((is_stopping t \<or> \<not> is_continuous t) \<and> DataElementsChanged des c v True s \<in> set es \<longrightarrow>
            finished t' \<and> StopAcquisition \<in> set es)
    \<and> (is_continuous t \<and> \<not> finished t \<and> finished t' \<and> \<not> aborted t' \<and> r = Inr () \<longrightarrow>
            is_stopping t \<and> (\<exists>des'. DataElementsChanged des' True (view_id t) True True \<in> set es))
    \<and> (is_continuous t \<and> \<not> is_stopping t \<and> DataElementsChanged des c v True s \<in> set es \<longrightarrow>
            \<not> finished t' \<and> StopAcquisition \<notin> set es)
    \<and> fst (fst (stop hs t)) = t\<lparr>is_stopping := True\<rparr>"
  using assms by (auto simp: exec_defs split: exec_splits)

lemma execute_upper_half_stopping:
  "execute example_cast (example_source [upper_half]) stopping_task =
     ((stopping_task\<lparr>data_elements := Some [upper_half\<lparr>properties_frame_index := Some 0\<rparr>]\<rparr>,
       [AcquireDataElements,
        DataElementsChanged [upper_half\<lparr>properties_frame_index := Some 0\<rparr>] True ''view'' False True]),
      Inr ())"
  by code_simp

lemma execute_lower_half_stopping:
  "execute example_cast (example_source [lower_half]) (after_upper_half stopping_task) =
     ((stopping_task\<lparr>frame_index := 1, finished := True\<rparr>,
       [AcquireDataElements, DataElementsChanged [merged_frame] True ''view'' True True,
        StopAcquisition, DataElementsChanged [] True ''view'' False True, FinishedEvent]),
      Inr ())"
  by code_simp

lemma execute_lower_half_started:
  "execute example_cast (example_source [lower_half]) (after_upper_half started_task) =
     ((started_task\<lparr>frame_index := 1,
          data_elements := Some [upper_half\<lparr>properties_frame_index := Some 0\<rparr>]\<rparr>,
       [AcquireDataElements, DataElementsChanged [merged_frame] True ''view'' True False]),
      Inr ())"
  by code_simp

lemma execute_upper_half_started:
  "execute example_cast (example_source [upper_half]) started_task =
     ((started_task\<lparr>data_elements := Some [upper_half\<lparr>properties_frame_index := Some 0\<rparr>]\<rparr>,
       [AcquireDataElements,
        DataElementsChanged [upper_half\<lparr>properties_frame_index := Some 0\<rparr>] True ''view'' False False]),
      Inr ())"
  by code_simp

theorem stop_at_frame_boundary_witness:
  "\<not> finished (fst (fst (execute example_cast (example_source [upper_half]) stopping_task)))
   \<and> finished (fst (fst (execute example_cast (example_source [lower_half]) (after_upper_half stopping_task))))
   \<and> \<not> finished (fst (fst (execute example_cast (example_source [lower_half]) (after_upper_half started_task))))"
proof -
  let ?u = "upper_half\<lparr>properties_frame_index := Some 0\<rparr>"
  have s: "is_stopping (after_upper_half stopping_task)"
    and n: "is_continuous (after_upper_half started_task)
            \<and> \<not> is_stopping (after_upper_half started_task)"
    by (simp_all add: after_upper_half_def execute_upper_half_stopping execute_upper_half_started)
      (simp_all add: example_defs)
  have m1: "DataElementsChanged [?u] True ''view'' False True
              \<in> set [AcquireDataElements, DataElementsChanged [?u] True ''view'' False True]"
    and m2: "DataElementsChanged [merged_frame] True ''view'' True True
              \<in> set [AcquireDataElements, DataElementsChanged [merged_frame] True ''view'' True True,
                      StopAcquisition, DataElementsChanged [] True ''view'' False True, FinishedEvent]"
    and m3: "DataElementsChanged [merged_frame] True ''view'' True False
              \<in> set [AcquireDataElements, DataElementsChanged [merged_frame] True ''view'' True False]"
    and ne: "[?u] \<noteq> []"
    by simp_all
  have a: "\<not> finished (stopping_task\<lparr>data_elements := Some [?u]\<rparr>)"
    using stop_at_frame_boundary [OF execute_upper_half_stopping,
        where des = "[?u]" and c = True and v = "''view''" and s = True] m1 ne
    by blast
  have b: "finished (stopping_task\<lparr>frame_index := 1, finished := True\<rparr>)"
    using stop_at_frame_boundary [OF execute_lower_half_stopping,
        where des = "[merged_frame]" and c = True and v = "''view''" and s = True] m2 s
    by blast
  have c: "\<not> finished (started_task\<lparr>frame_index := 1, data_elements := Some [?u]\<rparr>)"
    using stop_at_frame_boundary [OF execute_lower_half_started,
        where des = "[merged_frame]" and c = True and v = "''view''" and s = False] m3 n
    by blast
  from a b c show ?thesis
    by (simp only: execute_upper_half_stopping execute_lower_half_stopping
          execute_lower_half_started fst_conv simp_thms)
qed

subsection \<open>Resume\<close>

text \<open>
  Claim C8, as the code has it. The method resume always invokes the resume hook (and
  drops the buffered elements) but leaves the suspended flag as it is. The flag is
  cleared by execute: called on a suspended task that is started, or whose start hook
  returns, it calls resume and then clears the flag, whether the hook returns or
  raises.
\<close>

theorem resume_and_suspended_flag:
  "fst (resume hs t) = (t\<lparr>data_elements := None\<rparr>, [ResumeAcquisition])
   \<and> (is_suspended t \<and> (started t \<or> (\<exists>b. start_acquisition hs = Returns b)) \<longrightarrow>
        ResumeAcquisition \<in> set (snd (fst (execute cast hs t)))
        \<and> \<not> is_suspended (fst (fst (execute cast hs t))))"
  by (auto simp: exec_defs split: exec_splits)

theorem resume_and_suspended_flag_witness:
  "fst (resume failing_resume suspended_task) = (suspended_task\<lparr>data_elements := None\<rparr>, [ResumeAcquisition])
   \<and> ResumeAcquisition \<in> set (snd (fst (execute example_cast failing_resume suspended_task)))
   \<and> \<not> is_suspended (fst (fst (execute example_cast failing_resume suspended_task)))"
proof -
  have "is_suspended suspended_task \<and> started suspended_task"
    by (simp add: example_defs)
  with resume_and_suspended_flag [of failing_resume suspended_task example_cast] show ?thesis
    by blast
qed

text \<open>
  The claim as the specification words it fails: after resume on a suspended task
  the task is still suspended.
\<close>

theorem resume_and_suspended_flag_counterexample:
  "is_suspended suspended_task
   \<and> resume (example_source []) suspended_task
       = ((suspended_task\<lparr>data_elements := None\<rparr>, [ResumeAcquisition]), Inr ())
   \<and> is_suspended (suspended_task\<lparr>data_elements := None\<rparr>)"
  by (simp add: example_defs exec_defs)

subsection \<open>Finished is terminal\<close>

lemma do_call_finished:
  "finished t \<Longrightarrow> do_call cast c t = (t', es) \<Longrightarrow> finished t'"
  by (cases c) (auto simp: exec_defs split: exec_splits)

lemma do_call_started:
  "started t \<Longrightarrow> do_call cast c t = (t', es) \<Longrightarrow> started t'"
  by (cases c) (auto simp: exec_defs split: exec_splits)

lemma do_call_silent:
  "finished t \<Longrightarrow> started t \<Longrightarrow> do_call cast c t = (t', es) \<Longrightarrow> filter is_notification es = []"
  by (cases c) (auto simp: exec_defs split: exec_splits)

lemma run_finished_started:
  "finished t \<Longrightarrow> started t \<Longrightarrow>
   finished (fst (run cast cs t)) \<and> started (fst (run cast cs t)) \<and> filter is_notification (snd (run cast cs t)) = []"
proof (induction cs arbitrary: t)
  case Nil
  then show ?case by simp
next
  case (Cons c cs)
  obtain t1 es1 where c: "do_call cast c t = (t1, es1)" by (cases "do_call cast c t")
  obtain t2 es2 where r: "run cast cs t1 = (t2, es2)" by (cases "run cast cs t1")
  have f1: "finished t1" and s1: "started t1" and q1: "filter is_notification es1 = []"
    using Cons.prems c do_call_finished do_call_started do_call_silent by blast+
  from Cons.IH [OF f1 s1] r show ?case by (simp add: c q1)
qed

lemma run_finished: "finished t \<Longrightarrow> finished (fst (run cast cs t))"
proof (induction cs arbitrary: t)
  case Nil
  then show ?case by simp
next
  case (Cons c cs)
  obtain t1 es1 where c: "do_call cast c t = (t1, es1)" by (cases "do_call cast c t")
  obtain t2 es2 where r: "run cast cs t1 = (t2, es2)" by (cases "run cast cs t1")
  have f1: "finished t1" using Cons.prems c do_call_finished by blast
  from Cons.IH [OF f1] r show ?case by (simp add: c)
qed

text \<open>
  Claim C9, as the code has it. Once a task is finished it stays finished under every
  history of calls. The methods stop and abort fire no notification. A finished task
  that was started fires no data-changed and no finished notification under any
  history, so its finished notification was its last; and execute on it, when it is
  not suspended, changes nothing and calls nothing.
\<close>

theorem finished_is_terminal:
  assumes "finished t"
  shows "finished (fst (run cast cs t))
    \<and> filter is_notification (snd (fst (stop hs t))) = []
    \<and> filter is_notification (snd (fst (abort t))) = []
    \<and> (started t \<longrightarrow> filter is_notification (snd (run cast cs t)) = [])
    \<and> (started t \<and> \<not> is_suspended t \<longrightarrow> execute cast hs t = ((t, []), Inr ()))"
proof -
  have "finished (fst (run cast cs t))" using assms by (rule run_finished)
  moreover have "filter is_notification (snd (fst (stop hs t))) = []"
    by (auto simp: exec_defs split: exec_splits)
  moreover have "filter is_notification (snd (fst (abort t))) = []"
    by (auto simp: exec_defs split: exec_splits)
  moreover have "started t \<longrightarrow> filter is_notification (snd (run cast cs t)) = []"
    using assms run_finished_started by blast
  moreover have "started t \<and> \<not> is_suspended t \<longrightarrow> execute cast hs t = ((t, []), Inr ())"
    using assms by (auto simp: exec_defs split: exec_splits)
  ultimately show ?thesis by blast
qed

theorem finished_is_terminal_witness:
  "finished (fst (run example_cast [Execute (example_source [upper_half]), Abort, Stop (example_source []),
                       Execute (example_source [lower_half])] finished_task))
   \<and> filter is_notification
        (snd (run example_cast [Execute (example_source [upper_half]), Abort, Stop (example_source []),
                   Execute (example_source [lower_half])] finished_task)) = []
   \<and> execute example_cast (example_source [upper_half]) finished_task = ((finished_task, []), Inr ())"
proof -
  have "finished finished_task" and "started finished_task \<and> \<not> is_suspended finished_task"
    by (simp_all add: example_defs)
  with finished_is_terminal [where t = finished_task and cast = example_cast
      and hs = "example_source [upper_half]"] show ?thesis
    by blast
qed

text \<open>
  The claim as the specification words it fails: on a finished task abort still sets
  the aborted flag, stop still sets the stopping flag and calls the mark hook, and a
  task that finished because its start hook raised was never marked started, so the
  next execute calls the start hook again and, when that raises again, fires both
  notifications a second time.
\<close>

theorem finished_is_terminal_counterexample:
  "finished finished_task
   \<and> fst (abort finished_task) = (finished_task\<lparr>aborted := True\<rparr>, [])
   \<and> finished_task\<lparr>aborted := True\<rparr> \<noteq> finished_task
   \<and> fst (stop (example_source []) finished_task)
        = (finished_task\<lparr>is_stopping := True\<rparr>, [MarkAcquisition])
   \<and> finished_task\<lparr>is_stopping := True\<rparr> \<noteq> finished_task
   \<and> finished (fst (fst (execute example_cast failing_start (new_task ''view'' True))))
   \<and> snd (fst (execute example_cast failing_start (fst (fst (execute example_cast failing_start (new_task ''view'' True))))))
        = [StartAcquisition, DataElementsChanged [] True ''view'' False False, FinishedEvent]"
  by (simp add: example_defs exec_defs)

section \<open>The buffer after a complete frame\<close>

text \<open>
  What one acquisition step does to the buffer: an incomplete delivery is stored, a
  complete delivery advances the frame index and leaves the buffer as it was.
\<close>

lemma incomplete_delivery_is_stored:
  "execute_acquire_data_elements cast hs t = ((t', es), Inr False) \<Longrightarrow>
   \<exists>des. t' = t\<lparr>data_elements := Some des\<rparr>
     \<and> es = [AcquireDataElements,
             DataElementsChanged des (is_continuous t) (view_id t) False (is_stopping t)]"
  by (auto simp: execute_acquire_data_elements_def action_defs hook_defs Let_def
      split: exec_splits)

lemma complete_delivery_keeps_buffer:
  "execute_acquire_data_elements cast hs t = ((t', es), Inr True) \<Longrightarrow>
   t' = t\<lparr>frame_index := frame_index t + 1\<rparr>"
  by (auto simp: execute_acquire_data_elements_def action_defs hook_defs Let_def
      split: exec_splits)

text \<open>
  Claim C2 at a concrete history. A continuous task that is not stopping receives the
  upper half of a frame (incomplete) and then the lower half (complete). The second
  step reports the complete frame and advances the frame index, but the buffered
  elements are still those stored by the first step. The first delivery of the next
  frame, a band starting at row 2, is therefore merged with the old frame: rows 0 and
  1 of the old upper half are copied into it and it is reported as covering rows 0 to
  4. With a cleared buffer the same delivery is passed on as it is.
\<close>

theorem buffer_survives_complete_frame:
  "snd (fst (execute example_cast (example_source [lower_half]) (after_upper_half started_task)))
     = [AcquireDataElements, DataElementsChanged [merged_frame] True ''view'' True False]
   \<and> frame_index after_first_frame = 1
   \<and> data_elements after_first_frame = Some [upper_half\<lparr>properties_frame_index := Some 0\<rparr>]
   \<and> snd (fst (execute example_cast (example_source [late_band]) after_first_frame))
     = [AcquireDataElements,
        DataElementsChanged
          [late_band\<lparr>data := \<lparr>dtype = ''int64'',
                              cells = [[1, 1, 1], [1, 1, 1], [5, 5, 5], [5, 5, 5]]\<rparr>,
                     sub_area := Some ((0, 0), (4, 3)),
                     properties_frame_index := Some 1\<rparr>] True ''view'' False False]
   \<and> snd (fst (execute example_cast (example_source [late_band]) (after_first_frame\<lparr>data_elements := None\<rparr>)))
     = [AcquireDataElements,
        DataElementsChanged [late_band\<lparr>properties_frame_index := Some 1\<rparr>]
          True ''view'' False False]"
  by code_simp



section \<open>Merging partial deliveries\<close>

lemma shape_rectangular:
  "rectangular h w a \<Longrightarrow> shape a = (int h, if h = 0 then 0 else int w)"
  by (cases "cells a") (auto simp: rectangular_def shape_def)

lemma slice_indices_from_0:
  "0 \<le> n \<Longrightarrow> slice_indices 0 n m = (0, min (nat n) m)"
  by (simp add: slice_indices_def slice_bound_def Let_def)

lemma broadcast_same: "length xs = n \<Longrightarrow> broadcast n xs = xs"
  by (simp add: broadcast_def)

lemma set_rows_full:
  "length ds = length ss \<Longrightarrow> list_all (\<lambda>r. length r = w) ds \<Longrightarrow>
   list_all (\<lambda>r. length r = w) ss \<Longrightarrow>
   map (\<lambda>(d, s). set_row (0, w) d s) (zip ds ss) = ss"
  by (induction ds ss rule: list_induct2) (simp_all add: set_row_def broadcast_same)

lemma get_block_full:
  "list_all (\<lambda>r. length r = w) a \<Longrightarrow> get_block a (0, k) (0, w) = take k a"
proof -
  assume r: "list_all (\<lambda>r. length r = w) a"
  then have "list_all (\<lambda>r. length r = w) (take k a)"
    by (auto simp: list_all_iff dest: in_set_takeD)
  then have "map (\<lambda>r. take w r) (take k a) = take k a"
    by (induction "take k a" arbitrary: k a) (auto simp: list_all_iff map_idI)
  then show ?thesis by (simp add: get_block_def)
qed

lemma assign_slice_upper_rows:
  assumes a: "rectangular h w a" and b: "rectangular h w b" and n: "0 < n"
  shows "assign_slice cast b (0, n) (0, int w) a =
           Inr (b\<lparr>cells := map (map (cast (dtype a) (dtype b))) (take (nat n) (cells a))
                            @ drop (nat n) (cells b)\<rparr>)"
proof (cases "h = 0")
  case True
  with a b have "cells a = []" "cells b = []" by (simp_all add: rectangular_def)
  then show ?thesis
    by (simp add: assign_slice_def shape_def slice_indices_def slice_bound_def set_block_def
          get_block_def broadcast_def Let_def)
next
  case False
  let ?k = "min (nat n) h"
  let ?f = "map (cast (dtype a) (dtype b))"
  have sa: "shape a = (int h, int w)" and sb: "shape b = (int h, int w)"
    using a b False by (simp_all add: shape_rectangular)
  have ra: "list_all (\<lambda>r. length r = w) (cells a)"
    and rb: "list_all (\<lambda>r. length r = w) (cells b)"
    and la: "length (cells a) = h" and lb: "length (cells b) = h"
    using a b by (simp_all add: rectangular_def)
  have blk: "get_block (cells a) (0, ?k) (0, w) = take ?k (cells a)"
    using ra by (rule get_block_full)
  have rta: "list_all (\<lambda>r. length r = w) (map ?f (take ?k (cells a)))"
    and rtb: "list_all (\<lambda>r. length r = w) (take ?k (cells b))"
    using ra rb by (auto simp: list_all_iff dest: in_set_takeD)
  have len: "length (take ?k (cells b)) = length (map ?f (take ?k (cells a)))"
    by (simp add: la lb)
  have "set_block (cells b) (0, ?k) (0, w) (map ?f (take ?k (cells a)))
          = map ?f (take ?k (cells a)) @ drop ?k (cells b)"
    using set_rows_full [OF len rtb rta]
    by (simp add: set_block_def broadcast_same la)
  moreover have "take ?k (cells a) = take (nat n) (cells a)"
    and "drop ?k (cells b) = drop (nat n) (cells b)"
    by (simp_all add: la lb min_def)
  ultimately show ?thesis
    using n by (simp add: assign_slice_def sa sb slice_indices_from_0 blk Let_def)
qed

lemma merge_element_band:
  assumes "band_follows p d"
  shows "merge_element cast p d = Inr (union_band cast p d)"
proof -
  let ?h = "length (cells (data d))" and ?w = "nat (width_of d)"
  from assms have o: "fst (get_sub_area d) = (0, 0)"
    and t: "0 < top_of p" "top_of p \<le> height_of d"
    and w: "width_of p = width_of d" "0 \<le> width_of d"
    and r: "rectangular ?h ?w (data d)" "rectangular ?h ?w (data p)"
    by (simp_all add: band_follows_def)
  from w have iw: "int ?w = width_of d" by simp
  have "assign_slice cast (data p) (0, top_of p) (0, width_of d) (data d) =
          Inr ((data p)\<lparr>cells := map (map (cast (dtype (data d)) (dtype (data p))))
                                    (take (nat (top_of p)) (cells (data d)))
                                  @ drop (nat (top_of p)) (cells (data p))\<rparr>)"
    using assign_slice_upper_rows [OF r(1) r(2) t(1), of cast] by (simp only: iw)
  then show ?thesis
    using o t w
    by (simp add: merge_element_def union_band_def top_of_def height_of_def width_of_def
          Let_def)
qed

lemma merge_zip_bands:
  "list_all (\<lambda>(p, d). band_follows p d) (zip ps ds) \<Longrightarrow>
   merge_zip cast ps ds =
     Inr (map (\<lambda>(p, d). union_band cast p d) (zip ps ds) @ drop (length ds) ps)"
  by (induction cast ps ds rule: merge_zip.induct) (simp_all add: merge_element_band)

lemma union_band_region:
  assumes "band_follows p d"
  shows "covered_rows (union_band cast p d) = covered_rows d \<union> covered_rows p
    \<and> width_of (union_band cast p d) = width_of d
    \<and> take (nat (top_of p)) (cells (data (union_band cast p d)))
        = map (map (cast (dtype (data d)) (dtype (data p))))
            (take (nat (top_of p)) (cells (data d)))
    \<and> drop (nat (top_of p)) (cells (data (union_band cast p d)))
        = drop (nat (top_of p)) (cells (data p))"
proof -
  from assms have o: "fst (get_sub_area d) = (0, 0)"
    and t: "0 < top_of p" "top_of p \<le> height_of d" "height_of d \<le> top_of p + height_of p"
    and l: "length (cells (data p)) = length (cells (data d))"
    by (simp_all add: band_follows_def rectangular_def)
  have td: "top_of d = 0" using o by (simp add: top_of_def)
  have tu: "top_of (union_band cast p d) = 0"
    and hu: "height_of (union_band cast p d) = top_of p + height_of p"
    and wu: "width_of (union_band cast p d) = width_of d"
    by (simp_all add: union_band_def top_of_def height_of_def width_of_def get_sub_area_def)
  have "covered_rows (union_band cast p d) = covered_rows d \<union> covered_rows p"
    using t by (auto simp: covered_rows_def td tu hu)
  moreover
  have "take (nat (top_of p)) (cells (data (union_band cast p d)))
        = map (map (cast (dtype (data d)) (dtype (data p))))
            (take (nat (top_of p)) (cells (data d)))"
    using l by (simp add: union_band_def take_map [symmetric] min_def)
  moreover
  have "drop (nat (top_of p)) (cells (data (union_band cast p d)))
        = drop (nat (top_of p)) (cells (data p))"
    using l by (simp add: union_band_def min_def)
  ultimately show ?thesis using wu by blast
qed

text \<open>
  Claim C1. The buffer holds, for each channel, an element covering the rows from 0
  to its bottom at full width, and a delivery arrives whose element for that channel
  is a band of the same width that starts below row 0, at or above that bottom, and
  ends at or below it; the two arrays of a channel have the same shape. Then the merge
  succeeds and gives, channel by channel in the order of the delivery, the new element
  with the merged array and region; elements of the delivery beyond the buffered
  channels are passed on as they are. For each channel the rows covered afterwards are
  the union of the rows covered by the buffered and by the new element, at the
  buffered width; the rows of the array above the top of the new band are those of the
  buffered array, converted to the dtype of the new array, and all rows from that top
  on, the overlap included, are those of the new array. The claim is the case of a
  buffered band of rows 0 to 10 and a new band of rows 10 to 16, both 20 wide.
\<close>

theorem merge_contiguous_bands:
  assumes "ps \<noteq> []" "ds \<noteq> []" "list_all (\<lambda>(p, d). band_follows p d) (zip ps ds)"
  shows "merge_data_elements cast (Some ds) ps =
           Inr (map (\<lambda>(p, d). union_band cast p d) (zip ps ds) @ drop (length ds) ps)
    \<and> list_all
        (\<lambda>(p, d).
           covered_rows (union_band cast p d) = covered_rows d \<union> covered_rows p
           \<and> width_of (union_band cast p d) = width_of d
           \<and> take (nat (top_of p)) (cells (data (union_band cast p d)))
               = map (map (cast (dtype (data d)) (dtype (data p))))
                   (take (nat (top_of p)) (cells (data d)))
           \<and> drop (nat (top_of p)) (cells (data (union_band cast p d)))
               = drop (nat (top_of p)) (cells (data p)))
        (zip ps ds)"
proof -
  obtain p ps' d ds' where ps: "ps = p # ps'" and ds: "ds = d # ds'"
    using assms(1,2) by (cases ps; cases ds) auto
  have "merge_data_elements cast (Some ds) ps = merge_zip cast ps ds"
    by (simp add: merge_data_elements_def ps ds)
  then have "merge_data_elements cast (Some ds) ps =
           Inr (map (\<lambda>(p, d). union_band cast p d) (zip ps ds) @ drop (length ds) ps)"
    using merge_zip_bands [OF assms(3)] by simp
  moreover have "list_all
        (\<lambda>(p, d).
           covered_rows (union_band cast p d) = covered_rows d \<union> covered_rows p
           \<and> width_of (union_band cast p d) = width_of d
           \<and> take (nat (top_of p)) (cells (data (union_band cast p d)))
               = map (map (cast (dtype (data d)) (dtype (data p))))
                   (take (nat (top_of p)) (cells (data d)))
           \<and> drop (nat (top_of p)) (cells (data (union_band cast p d)))
               = drop (nat (top_of p)) (cells (data p)))
        (zip ps ds)"
    using assms(3) union_band_region by (fastforce simp: list_all_iff)
  ultimately show ?thesis by blast
qed


lemma contiguous_channels:
  "list_all (\<lambda>(p, d). band_follows p d)
     (zip [rows_10_16, lower_half] [rows_0_10, upper_half])"
  by code_simp

lemma contiguous_channels_merged:
  "map (\<lambda>(p, d). union_band example_cast p d)
       (zip [rows_10_16, lower_half] [rows_0_10, upper_half])
     @ drop (length [rows_0_10, upper_half]) [rows_10_16, lower_half]
   = [rows_10_16\<lparr>data := \<lparr>dtype = ''int64'',
                           cells = replicate 10 (replicate 20 1) @ replicate 6 (replicate 20 2)\<rparr>,
                 sub_area := Some ((0, 0), (16, 20))\<rparr>,
      lower_half\<lparr>data := \<lparr>dtype = ''int64'',
                           cells = [[1, 1, 1], [1, 1, 1], [2, 2, 2], [2, 2, 2]]\<rparr>,
                 sub_area := Some ((0, 0), (4, 3))\<rparr>]"
  by code_simp

theorem merge_contiguous_bands_witness:
  "merge_data_elements example_cast (Some [rows_0_10, upper_half]) [rows_10_16, lower_half]
   = Inr [rows_10_16\<lparr>data := \<lparr>dtype = ''int64'',
                           cells = replicate 10 (replicate 20 1) @ replicate 6 (replicate 20 2)\<rparr>,
                 sub_area := Some ((0, 0), (16, 20))\<rparr>,
          lower_half\<lparr>data := \<lparr>dtype = ''int64'',
                           cells = [[1, 1, 1], [1, 1, 1], [2, 2, 2], [2, 2, 2]]\<rparr>,
                 sub_area := Some ((0, 0), (4, 3))\<rparr>]"
proof -
  have "[rows_10_16, lower_half] \<noteq> []" and "[rows_0_10, upper_half] \<noteq> []"
    by simp_all
  from merge_contiguous_bands [OF this contiguous_channels, of example_cast]
  have "merge_data_elements example_cast (Some [rows_0_10, upper_half]) [rows_10_16, lower_half]
        = Inr (map (\<lambda>(p, d). union_band example_cast p d)
                 (zip [rows_10_16, lower_half] [rows_0_10, upper_half])
               @ drop (length [rows_0_10, upper_half]) [rows_10_16, lower_half])"
    by (rule conjunct1)
  then show ?thesis by (simp only: contiguous_channels_merged)
qed

text \<open>
  The copy converts: the value 300 of a buffered array of dtype int64 arrives as 44 in
  a new array of dtype uint8, and an integer beyond 53 bits is rounded on its way into
  an array of dtype float64.
\<close>

lemma example_cast_values:
  "example_cast ''int64'' ''uint8'' 300 = 44"
  "example_cast ''int64'' ''int8'' 200 = - 56"
  "example_cast ''int64'' ''float64'' (2 ^ 53 + 1) = 2 ^ 53"
  "example_cast ''int64'' ''float64'' (2 ^ 53 + 3) = 2 ^ 53 + 4"
  "example_cast ''float64'' ''float64'' 5 = 5"
  by code_simp+

lemma merge_converts_to_destination_dtype:
  "merge_data_elements example_cast (Some [wide_values]) [byte_band]
   = Inr [byte_band\<lparr>data := \<lparr>dtype = ''uint8'', cells = [[44, 44], [7, 7]]\<rparr>,
                    sub_area := Some ((0, 0), (2, 2))\<rparr>]"
  by code_simp

text \<open>
  The merged region always ends at the bottom of the new band: a band of rows 2 to 5
  merged into buffered rows 0 to 10 gives rows 0 to 5, which is why the union above
  needs the new band to end at or below the buffered bottom.
\<close>

lemma merged_region_ends_with_new_band:
  "merge_data_elements example_cast (Some [rows_0_10])
     [example_element 16 20 2 (Some ((2, 0), (3, 20))) (Some ''partial'')]
   = Inr [\<lparr>data = \<lparr>dtype = ''int64'',
                   cells = replicate 2 (replicate 20 1) @ replicate 14 (replicate 20 2)\<rparr>,
           sub_area = Some ((0, 0), (5, 20)), state = Some ''partial'', channel_id = None,
           channel_name = None, properties_frame_index = None\<rparr>]"
  by code_simp

section \<open>Deliveries the merge refuses\<close>

text \<open>
  A partial element whose top lies beyond the bottom of the buffered element's covered
  region, or which starts below row 0 with a width other than the width of that
  region, fails the assertions of the loop, for whichever channel it is delivered; the
  error finishes the task and leaves execute. The width compared with is the full
  width of the array when the buffered element carries no sub-area.
\<close>

lemma merge_element_violation:
  "merge_violation p d \<Longrightarrow> merge_element cast p d = Inl AssertionError"
  by (auto simp: merge_violation_def top_of_def height_of_def width_of_def
        merge_element_def Let_def)

lemma merge_zip_violation:
  "(p, d) \<in> set (zip ps ds) \<Longrightarrow> merge_violation p d \<Longrightarrow> \<exists>e. merge_zip cast ps ds = Inl e"
proof (induction cast ps ds rule: merge_zip.induct)
  case (1 cast q qs c cs)
  show ?case
  proof (cases "merge_element cast q c")
    case (Inl e)
    then show ?thesis by simp
  next
    case (Inr q')
    with 1 have "(p, d) \<in> set (zip qs cs)"
      using merge_element_violation [of q c cast] by auto
    with 1 Inr obtain e where "merge_zip cast qs cs = Inl e" by blast
    with Inr show ?thesis by simp
  qed
qed simp_all

lemma merge_data_elements_violation:
  assumes "(p, d) \<in> set (zip ps ds)" "merge_violation p d"
  shows "\<exists>e. merge_data_elements cast (Some ds) ps = Inl e"
proof -
  from assms(1) obtain p' ps' d' ds' where "ps = p' # ps'" "ds = d' # ds'"
    by (cases ps; cases ds) auto
  then have "merge_data_elements cast (Some ds) ps = merge_zip cast ps ds"
    by (simp add: merge_data_elements_def)
  with merge_zip_violation [OF assms] show ?thesis by simp
qed

lemma merge_violation_setdefault:
  "merge_violation (setdefault_frame_index i p) d = merge_violation p d"
  by (simp add: merge_violation_def top_of_def height_of_def width_of_def get_sub_area_def
        setdefault_frame_index_def split: option.splits)

lemma execute_merge_violation:
  assumes "(p, d) \<in> set (zip ps ds)" "merge_violation p d"
    and "started t" "\<not> finished t" "\<not> aborted t" "\<not> is_suspended t"
    and "data_elements t = Some ds"
    and "acquire_data_elements hs = Returns (Some ps)"
  shows "\<exists>e. execute cast hs t =
           ((t\<lparr>finished := True\<rparr>,
             [AcquireDataElements,
              DataElementsChanged [] (is_continuous t) (view_id t) False (is_stopping t),
              FinishedEvent]),
            Inl e)"
proof -
  let ?f = "setdefault_frame_index (frame_index t)"
  have "(?f p, d) \<in> set (zip (map ?f ps) ds)"
    using assms(1) by (auto simp: zip_map1)
  moreover have "merge_violation (?f p) d"
    using assms(2) by (simp add: merge_violation_setdefault)
  ultimately obtain e where
    "merge_data_elements cast (data_elements t) (map ?f ps) = Inl e"
    using merge_data_elements_violation assms(7) by metis
  then show ?thesis
    using assms(3-6,8) by (simp add: exec_defs)
qed

lemma full_width_violation:
  "sub_area d = None \<Longrightarrow> 0 < top_of p \<Longrightarrow> width_of p < snd (shape (data d)) \<Longrightarrow>
   merge_violation p d"
  by (simp add: merge_violation_def top_of_def width_of_def get_sub_area_def)

text \<open>
  Claim C4 at a concrete delivery. The buffered element covers rows 0 to 2 of an array
  three pixels wide at a width of two pixels; the new band starts at row 2, below
  row 0, and is two pixels wide as well, narrower than the array. The assertion
  commented "only support full width sub-areas" compares the new width with the
  buffered width, so the band is not refused: the merge succeeds, copying columns 0
  and 1 of the rows above, and execute returns without error.
\<close>

theorem narrow_band_is_accepted:
  "top_of narrow_lower = 2 \<and> width_of narrow_lower = 2
   \<and> shape (data narrow_lower) = (4, 3)
   \<and> merge_data_elements example_cast (Some [narrow_upper]) [narrow_lower]
       = Inr [narrow_lower\<lparr>data := \<lparr>dtype = ''int64'',
                                    cells = [[1, 1, 2], [1, 1, 2], [2, 2, 2], [2, 2, 2]]\<rparr>,
                           sub_area := Some ((0, 0), (4, 2))\<rparr>]
   \<and> snd (execute example_cast (example_source [narrow_lower])
            (started_task\<lparr>data_elements := Some [narrow_upper]\<rparr>)) = Inr ()"
  by code_simp


end
